theory Spec2Isabelle
  imports Complex_Main "HOL-Library.Sublist"
begin

section \<open>Python values and the operations the client applies to them\<close>

text \<open>
  The function under study is \<^verbatim>\<open>get_granite_response\<close> of \<^verbatim>\<open>app.py\<close>.  It reads two
  module-level variables, posts one HTTP request and turns whatever happens into the value
  it returns.  The values it handles are the ones \<^verbatim>\<open>response.json()\<close> produces:
  \<^verbatim>\<open>None\<close>, booleans, integers, floats, strings, lists and dictionaries keyed by strings.

  A float is represented by the rational it is written as (the literal \<^verbatim>\<open>1.1\<close> by
  \<open>11/10\<close>); the code only ever tests a float for being zero.  A dictionary is the list of
  its items in insertion order, looked up with \<^const>\<open>map_of\<close>; a Python dictionary has
  no duplicate key.
\<close>

datatype py_value =
    PyNone
  | PyBool bool
  | PyInt int
  | PyFloat rat
  | PyStr string
  | PyList "py_value list"
  | PyDict "(string \<times> py_value) list"

text \<open>
  Strings are lists of characters.  The characters below 128 are the ASCII ones; a character
  from 128 on stands for a non-ASCII character of a Python string.  The function never looks
  inside a character, but whether the standard output can encode it decides whether
  \<^verbatim>\<open>print\<close> raises.
\<close>

definition is_ascii :: "char \<Rightarrow> bool" where
  "is_ascii c = (of_char c < (128 :: nat))"

text \<open>
  What the function reads of a \<^verbatim>\<open>requests.Response\<close>: \<^verbatim>\<open>status_code\<close>, \<^verbatim>\<open>text\<close> (the
  body as received) and what \<^verbatim>\<open>json()\<close> does, which is to return the decoded body or to
  raise.  An exception is known by the classes it is an instance of, from its own class up to
  \<^verbatim>\<open>BaseException\<close>, and by its \<^verbatim>\<open>response\<close> attribute, which is \<^verbatim>\<open>None\<close> or a response.
\<close>

datatype http_response =
    Response (status_code: int) (response_text: string) (json_result: "py_exception + py_value")
and py_exception =
    PyException (exc_classes: "string list") (exc_response: "http_response option")

text \<open>\<^verbatim>\<open>isinstance(e, cls)\<close>, which is how an \<^verbatim>\<open>except cls\<close> clause selects.\<close>

definition isinstance :: "py_exception \<Rightarrow> string \<Rightarrow> bool" where
  "isinstance e cls = (cls \<in> set (exc_classes e))"

text \<open>The built-in exceptions that the statements of the function raise by themselves.\<close>

definition TypeError :: py_exception where
  "TypeError = PyException [''TypeError'', ''Exception'', ''BaseException''] None"

definition KeyError :: py_exception where
  "KeyError = PyException [''KeyError'', ''LookupError'', ''Exception'', ''BaseException''] None"

definition IndexError :: py_exception where
  "IndexError = PyException [''IndexError'', ''LookupError'', ''Exception'', ''BaseException''] None"

definition AttributeError :: py_exception where
  "AttributeError = PyException [''AttributeError'', ''Exception'', ''BaseException''] None"

definition UnboundLocalError :: py_exception where
  "UnboundLocalError =
     PyException [''UnboundLocalError'', ''NameError'', ''Exception'', ''BaseException''] None"

definition UnicodeEncodeError :: py_exception where
  "UnicodeEncodeError =
     PyException
       [''UnicodeEncodeError'', ''UnicodeError'', ''ValueError'', ''Exception'', ''BaseException'']
       None"

text \<open>Truth value of an object, as \<^verbatim>\<open>if x\<close> and \<^verbatim>\<open>x and ...\<close> test it.\<close>

fun truthy :: "py_value \<Rightarrow> bool" where
  "truthy PyNone = False"
| "truthy (PyBool b) = b"
| "truthy (PyInt i) = (i \<noteq> 0)"
| "truthy (PyFloat q) = (q \<noteq> 0)"
| "truthy (PyStr s) = (s \<noteq> [])"
| "truthy (PyList xs) = (xs \<noteq> [])"
| "truthy (PyDict kvs) = (kvs \<noteq> [])"

text \<open>
  \<^verbatim>\<open>key in x\<close> for a string \<^verbatim>\<open>key\<close>: key membership in a dictionary, element equality
  in a list, substring test in a string, \<^verbatim>\<open>TypeError\<close> for anything that is not iterable.
\<close>

fun py_contains :: "py_value \<Rightarrow> string \<Rightarrow> py_exception + bool" where
  "py_contains (PyDict kvs) k = Inr (k \<in> set (map fst kvs))"
| "py_contains (PyList xs) k = Inr (PyStr k \<in> set xs)"
| "py_contains (PyStr s) k = Inr (sublist k s)"
| "py_contains PyNone k = Inl TypeError"
| "py_contains (PyBool b) k = Inl TypeError"
| "py_contains (PyInt i) k = Inl TypeError"
| "py_contains (PyFloat q) k = Inl TypeError"

text \<open>
  \<^verbatim>\<open>x[key]\<close> for a string \<^verbatim>\<open>key\<close>: the value in a dictionary or \<^verbatim>\<open>KeyError\<close>;
  \<^verbatim>\<open>TypeError\<close> for a list or a string (their indices are integers) and for anything that
  is not subscriptable.
\<close>

fun py_getitem_str :: "py_value \<Rightarrow> string \<Rightarrow> py_exception + py_value" where
  "py_getitem_str (PyDict kvs) k =
     (case map_of kvs k of None \<Rightarrow> Inl KeyError | Some v \<Rightarrow> Inr v)"
| "py_getitem_str (PyList xs) k = Inl TypeError"
| "py_getitem_str (PyStr s) k = Inl TypeError"
| "py_getitem_str PyNone k = Inl TypeError"
| "py_getitem_str (PyBool b) k = Inl TypeError"
| "py_getitem_str (PyInt i) k = Inl TypeError"
| "py_getitem_str (PyFloat q) k = Inl TypeError"

text \<open>\<^verbatim>\<open>len(x)\<close>: defined on strings, lists and dictionaries, \<^verbatim>\<open>TypeError\<close> elsewhere.\<close>

fun py_len :: "py_value \<Rightarrow> py_exception + nat" where
  "py_len (PyStr s) = Inr (length s)"
| "py_len (PyList xs) = Inr (length xs)"
| "py_len (PyDict kvs) = Inr (length kvs)"
| "py_len PyNone = Inl TypeError"
| "py_len (PyBool b) = Inl TypeError"
| "py_len (PyInt i) = Inl TypeError"
| "py_len (PyFloat q) = Inl TypeError"

text \<open>
  \<^verbatim>\<open>x[0]\<close>: the first element of a list, the first character of a string (a string of
  length one), \<^verbatim>\<open>KeyError\<close> on a dictionary (its keys are strings), \<^verbatim>\<open>IndexError\<close>
  on an empty sequence.
\<close>

fun py_getitem_0 :: "py_value \<Rightarrow> py_exception + py_value" where
  "py_getitem_0 (PyList []) = Inl IndexError"
| "py_getitem_0 (PyList (x # xs)) = Inr x"
| "py_getitem_0 (PyStr []) = Inl IndexError"
| "py_getitem_0 (PyStr (c # s)) = Inr (PyStr [c])"
| "py_getitem_0 (PyDict kvs) = Inl KeyError"
| "py_getitem_0 PyNone = Inl TypeError"
| "py_getitem_0 (PyBool b) = Inl TypeError"
| "py_getitem_0 (PyInt i) = Inl TypeError"
| "py_getitem_0 (PyFloat q) = Inl TypeError"

text \<open>
  \<^verbatim>\<open>x.get(key, default)\<close>: a method of dictionaries only; every other value raises
  \<^verbatim>\<open>AttributeError\<close>.
\<close>

fun py_get :: "py_value \<Rightarrow> string \<Rightarrow> py_value \<Rightarrow> py_exception + py_value" where
  "py_get (PyDict kvs) k d = Inr (case map_of kvs k of None \<Rightarrow> d | Some v \<Rightarrow> v)"
| "py_get (PyList xs) k d = Inl AttributeError"
| "py_get (PyStr s) k d = Inl AttributeError"
| "py_get PyNone k d = Inl AttributeError"
| "py_get (PyBool b) k d = Inl AttributeError"
| "py_get (PyInt i) k d = Inl AttributeError"
| "py_get (PyFloat q) k d = Inl AttributeError"

text \<open>\<^verbatim>\<open>str(n)\<close> of an integer, as an f-string formats \<^verbatim>\<open>status_code\<close>.\<close>

definition digit_char :: "nat \<Rightarrow> char" where
  "digit_char d = ''0123456789'' ! d"

function str_nat :: "nat \<Rightarrow> string" where
  "str_nat n = (if n < 10 then [digit_char n] else str_nat (n div 10) @ [digit_char (n mod 10)])"
  by pat_completeness auto
termination
  by (relation "measure (\<lambda>n. n)") auto

definition str_int :: "int \<Rightarrow> string" where
  "str_int i = (if i < 0 then CHR ''-'' # str_nat (nat (- i)) else str_nat (nat i))"

section \<open>Printing\<close>

text \<open>
  Every failure path past the guard prints a diagnostic line before it returns.  What \<^verbatim>\<open>print\<close> and the
  f-strings need from the interpreter is taken as a parameter: which non-ASCII characters the
  codec of the standard output encodes, the \<^verbatim>\<open>repr\<close> of a decoded value and the \<^verbatim>\<open>str\<close> of
  an exception.  The standard output is taken to be open and its codec to contain ASCII, so
  a line of ASCII characters is always printed; a line with a character the codec does not
  encode raises \<^verbatim>\<open>UnicodeEncodeError\<close>.
\<close>

record runtime =
  encodes :: "char \<Rightarrow> bool"
  repr_value :: "py_value \<Rightarrow> string"
  str_exception :: "py_exception \<Rightarrow> string"

definition py_print :: "runtime \<Rightarrow> string \<Rightarrow> py_exception option" where
  "py_print rt line =
     (if list_all (\<lambda>c. is_ascii c \<or> encodes rt c) line then None else Some UnicodeEncodeError)"

text \<open>\<^verbatim>\<open>print(line); return v\<close>: the value, or the exception of the \<^verbatim>\<open>print\<close>.\<close>

definition print_then_return :: "runtime \<Rightarrow> string \<Rightarrow> py_value \<Rightarrow> py_exception + py_value" where
  "print_then_return rt line v =
     (case py_print rt line of Some raised \<Rightarrow> Inl raised | None \<Rightarrow> Inr v)"

text \<open>
  \<^verbatim>\<open>{response_data}\<close> in an f-string is \<^verbatim>\<open>str(response_data)\<close>: a string is inserted as it
  is, every other value through its \<^verbatim>\<open>repr\<close>.
\<close>

fun py_str :: "runtime \<Rightarrow> py_value \<Rightarrow> string" where
  "py_str rt (PyStr s) = s"
| "py_str rt v = repr_value rt v"

text \<open>Two interpreters for concrete runs: one whose output encodes every character (as
  UTF-8 does for all but a lone surrogate), and one whose output is ASCII only.\<close>

definition lenient_runtime :: runtime where
  "lenient_runtime =
     \<lparr> encodes = (\<lambda>c. True),
       repr_value = (\<lambda>v. ''<value>''),
       str_exception = (\<lambda>e. ''<exception>'') \<rparr>"

definition ascii_runtime :: runtime where
  "ascii_runtime =
     \<lparr> encodes = (\<lambda>c. False),
       repr_value = (\<lambda>v. ''<value>''),
       str_exception = (\<lambda>e. ''<exception>'') \<rparr>"

section \<open>The transport\<close>

text \<open>
  \<^verbatim>\<open>requests.post(API_URL, headers=headers, json=payload, timeout=60)\<close> is the only
  contact with the network.  The model takes it as a parameter: given the request and the
  state of the network, it raises an exception or returns a response, and leaves the network
  in a new state.  Nothing is assumed about the exception.
\<close>

record http_request =
  url :: string
  headers :: "(string \<times> string) list"
  json_payload :: py_value
  timeout :: int

type_synonym 'net transport =
  "http_request \<Rightarrow> 'net \<Rightarrow> (py_exception + http_response) \<times> 'net"

text \<open>
  Transports for concrete runs.  The state of the network is the list of the requests it
  has received: \<open>recording f\<close> appends each request and answers with \<open>f\<close> of it,
  \<open>answering r\<close> appends each request and always answers \<open>r\<close>.
\<close>

definition recording ::
  "(http_request \<Rightarrow> py_exception + http_response) \<Rightarrow> http_request list transport" where
  "recording f request received = (f request, received @ [request])"

definition answering :: "py_exception + http_response \<Rightarrow> http_request list transport" where
  "answering result = recording (\<lambda>request. result)"

text \<open>
  Exceptions of the \<^verbatim>\<open>requests\<close> library, with the classes they inherit from:
  \<^verbatim>\<open>ConnectTimeout\<close> is both a \<^verbatim>\<open>ConnectionError\<close> and a \<^verbatim>\<open>Timeout\<close>; the
  \<^verbatim>\<open>JSONDecodeError\<close> that \<^verbatim>\<open>json()\<close> raises is also a \<^verbatim>\<open>json.JSONDecodeError\<close>.
\<close>

definition ConnectTimeout :: py_exception where
  "ConnectTimeout =
     PyException
       [''requests.exceptions.ConnectTimeout'', ''requests.exceptions.ConnectionError'',
        ''requests.exceptions.Timeout'', ''requests.exceptions.RequestException'',
        ''OSError'', ''Exception'', ''BaseException'']
       None"

definition ReadTimeout :: py_exception where
  "ReadTimeout =
     PyException
       [''requests.exceptions.ReadTimeout'', ''requests.exceptions.Timeout'',
        ''requests.exceptions.RequestException'', ''OSError'', ''Exception'', ''BaseException'']
       None"

definition TooManyRedirects :: py_exception where
  "TooManyRedirects =
     PyException
       [''requests.exceptions.TooManyRedirects'', ''requests.exceptions.RequestException'',
        ''OSError'', ''Exception'', ''BaseException'']
       None"

definition RequestsJSONDecodeError :: py_exception where
  "RequestsJSONDecodeError =
     PyException
       [''requests.exceptions.JSONDecodeError'', ''requests.exceptions.InvalidJSONError'',
        ''requests.exceptions.RequestException'', ''OSError'', ''json.JSONDecodeError'',
        ''ValueError'', ''Exception'', ''BaseException'']
       None"

text \<open>
  \<^verbatim>\<open>response.raise_for_status()\<close>: "Raise an HTTPError for bad responses (4xx or 5xx)",
  with the response attached to the exception.
\<close>

definition HTTPError :: "http_response \<Rightarrow> py_exception" where
  "HTTPError response =
     PyException
       [''requests.exceptions.HTTPError'', ''requests.exceptions.RequestException'',
        ''OSError'', ''Exception'', ''BaseException'']
       (Some response)"

definition raise_for_status :: "http_response \<Rightarrow> py_exception + unit" where
  "raise_for_status response =
     (if 400 \<le> status_code response \<and> status_code response < 600
      then Inl (HTTPError response) else Inr ())"

section \<open>\<^verbatim>\<open>get_granite_response\<close>\<close>

text \<open>The two module-level variables, as \<^verbatim>\<open>os.getenv\<close> leaves them: a string or \<^verbatim>\<open>None\<close>.\<close>

record environment =
  ibm_api_key :: "string option"
  ibm_project_id :: "string option"

text \<open>\<^verbatim>\<open>not x\<close> for such a variable: true for \<^verbatim>\<open>None\<close> and for the empty string.\<close>

fun py_not :: "string option \<Rightarrow> bool" where
  "py_not None = True"
| "py_not (Some s) = (s = [])"

definition API_URL :: string where
  "API_URL = ''https://us-south.ml.cloud.ibm.com/ml/v1-beta/generation/text?version=2023-05-29''"

definition MODEL_ID :: string where
  "MODEL_ID = ''ibm/granite-13b-instruct-v2''"

text \<open>The request of lines 45 to 71: URL, headers, payload and the timeout of 60 seconds.\<close>

definition granite_request :: "string \<Rightarrow> string \<Rightarrow> string \<Rightarrow> http_request" where
  "granite_request api_key project_id prompt_text =
     \<lparr> url = API_URL,
       headers =
         [(''Authorization'', ''Bearer '' @ api_key),
          (''Content-Type'', ''application/json''),
          (''Accept'', ''application/json''),
          (''ibm-metrics-api-token'', api_key),
          (''ML-Instance-ID'', project_id)],
       json_payload =
         PyDict
           [(''model_id'', PyStr MODEL_ID),
            (''input'', PyStr prompt_text),
            (''parameters'',
               PyDict
                 [(''decoding_method'', PyStr ''greedy''),
                  (''max_new_tokens'', PyInt 500),
                  (''min_new_tokens'', PyInt 50),
                  (''repetition_penalty'', PyFloat (11 / 10))]),
            (''project_id'', PyStr project_id)],
       timeout = 60 \<rparr>"

text \<open>
  A field of the \<^verbatim>\<open>parameters\<close> object of a request's payload, for stating what a request
  carries.
\<close>

definition payload_parameter :: "http_request \<Rightarrow> string \<Rightarrow> py_value option" where
  "payload_parameter request name =
     (case json_payload request of
        PyDict entries \<Rightarrow>
          (case map_of entries ''parameters'' of
             Some (PyDict parameters) \<Rightarrow> map_of parameters name
           | _ \<Rightarrow> None)
      | _ \<Rightarrow> None)"

text \<open>
  The condition of line 79,
  \<^verbatim>\<open>response_data and "results" in response_data and len(response_data["results"]) > 0\<close>,
  evaluated left to right; \<^verbatim>\<open>and\<close> stops at the first false operand.
\<close>

definition has_results :: "py_value \<Rightarrow> py_exception + bool" where
  "has_results response_data =
     (if \<not> truthy response_data then Inr False
      else case py_contains response_data ''results'' of
          Inl e \<Rightarrow> Inl e
        | Inr False \<Rightarrow> Inr False
        | Inr True \<Rightarrow>
            (case py_getitem_str response_data ''results'' of
               Inl e \<Rightarrow> Inl e
             | Inr results \<Rightarrow>
                 (case py_len results of
                    Inl e \<Rightarrow> Inl e
                  | Inr n \<Rightarrow> Inr (n > 0))))"

text \<open>
  Lines 79 to 83: the value returned for a decoded body, or the exception raised.  The
  \<^verbatim>\<open>else\<close> branch prints the decoded body before it returns.
\<close>

definition extract_text :: "runtime \<Rightarrow> py_value \<Rightarrow> py_exception + py_value" where
  "extract_text rt response_data =
     (case has_results response_data of
        Inl e \<Rightarrow> Inl e
      | Inr True \<Rightarrow>
          (case py_getitem_str response_data ''results'' of
             Inl e \<Rightarrow> Inl e
           | Inr results \<Rightarrow>
               (case py_getitem_0 results of
                  Inl e \<Rightarrow> Inl e
                | Inr first \<Rightarrow> py_get first ''generated_text'' (PyStr ''No text generated.'')))
      | Inr False \<Rightarrow>
          print_then_return rt
            (''Unexpected API response structure: '' @ py_str rt response_data)
            (PyStr ''An unexpected response format was received from the AI.''))"

text \<open>
  The body of the \<^verbatim>\<open>try\<close> (lines 70 to 83).  It gives the binding of the local variable
  \<^verbatim>\<open>response\<close>, which a handler reads (unbound while \<^verbatim>\<open>requests.post\<close> has not
  returned), the outcome, and the state in which the one call of the transport leaves the
  network.
\<close>

definition try_block ::
  "runtime \<Rightarrow> 'net transport \<Rightarrow> http_request \<Rightarrow> 'net
     \<Rightarrow> http_response option \<times> (py_exception + py_value) \<times> 'net" where
  "try_block rt post request net =
     (case post request net of
        (Inl e, net') \<Rightarrow> (None, Inl e, net')
      | (Inr response, net') \<Rightarrow>
          (Some response,
           (case raise_for_status response of
              Inl e \<Rightarrow> Inl e
            | Inr _ \<Rightarrow>
                (case json_result response of
                   Inl e \<Rightarrow> Inl e
                 | Inr response_data \<Rightarrow> extract_text rt response_data)),
           net'))"

text \<open>
  The \<^verbatim>\<open>except\<close> clauses (lines 85 to 100), tried in their order; the first whose class
  the exception is an instance of handles it, and an exception that is not an
  \<^verbatim>\<open>Exception\<close> passes through.  Each handler prints and then returns.  The line of the
  \<^verbatim>\<open>HTTPError\<close> handler reads \<^verbatim>\<open>e.response.status_code\<close> and \<^verbatim>\<open>e.response.text\<close>, the one
  of the \<^verbatim>\<open>JSONDecodeError\<close> handler reads \<^verbatim>\<open>response.text\<close>.  The handlers are outside the
  \<^verbatim>\<open>try\<close>: an exception raised in one leaves the function.
\<close>

definition except_clauses ::
  "runtime \<Rightarrow> http_response option \<Rightarrow> py_exception \<Rightarrow> py_exception + py_value" where
  "except_clauses rt response e =
     (if isinstance e ''requests.exceptions.Timeout'' then
        print_then_return rt ''Error: Request to IBM Granite API timed out.''
          (PyStr ''The AI took too long to respond. Please try again.'')
      else if isinstance e ''requests.exceptions.ConnectionError'' then
        print_then_return rt
          ''Error: Could not connect to IBM Granite API. Check network and API URL.''
          (PyStr ''Could not connect to the AI service. Please check your network connection.'')
      else if isinstance e ''requests.exceptions.HTTPError'' then
        (case exc_response e of
           None \<Rightarrow> Inl AttributeError
         | Some r \<Rightarrow>
             print_then_return rt
               (''HTTP Error calling IBM Granite API: '' @ str_int (status_code r) @ '' - ''
                  @ response_text r)
               (PyStr (''An API error occurred: '' @ str_int (status_code r)
                       @ ''. Please check your credentials or API usage.'')))
      else if isinstance e ''json.JSONDecodeError'' then
        (case response of
           None \<Rightarrow> Inl UnboundLocalError
         | Some r \<Rightarrow>
             print_then_return rt
               (''Error: Could not decode JSON from API response: '' @ response_text r)
               (PyStr ''Received an unreadable response from the AI service.''))
      else if isinstance e ''Exception'' then
        print_then_return rt
          (''An unexpected error occurred while interacting with IBM Granite API: ''
             @ str_exception rt e)
          (PyStr ''An internal error occurred while processing your request with the AI.'')
      else Inl e)"

text \<open>
  The whole function.  The result is what the call returns (\<open>Inr\<close>) or the exception that
  leaves it (\<open>Inl\<close>), together with the state of the network after the call.
\<close>

definition get_granite_response ::
  "environment \<Rightarrow> runtime \<Rightarrow> 'net transport \<Rightarrow> string \<Rightarrow> 'net
     \<Rightarrow> (py_exception + py_value) \<times> 'net" where
  "get_granite_response env rt post prompt_text net =
     (if py_not (ibm_api_key env) \<or> py_not (ibm_project_id env)
      then (Inr (PyStr ''Error: IBM API Key or Project ID is not configured.''), net)
      else
        let request = granite_request (the (ibm_api_key env)) (the (ibm_project_id env)) prompt_text;
            (response, outcome, net') = try_block rt post request net
        in (case outcome of
              Inr v \<Rightarrow> Inr v
            | Inl e \<Rightarrow> except_clauses rt response e,
            net'))"

section \<open>Auxiliary facts\<close>



lemma print_then_return_value: "print_then_return rt line v = Inr w \<Longrightarrow> w = v"
  by (auto simp: print_then_return_def split: option.splits)

text \<open>Past the guard, the call is the \<^verbatim>\<open>try\<close> statement applied to the one request.\<close>

lemma py_not_False: "\<not> py_not x \<longleftrightarrow> (\<exists>s. x = Some s \<and> s \<noteq> [])"
  by (cases x) auto

lemma granite_configured:
  assumes "ibm_api_key env = Some api_key" "api_key \<noteq> []"
    and "ibm_project_id env = Some project_id" "project_id \<noteq> []"
    and "try_block rt post (granite_request api_key project_id prompt_text) net
           = (response, outcome, net')"
  shows "get_granite_response env rt post prompt_text net =
           (case outcome of Inr v \<Rightarrow> Inr v | Inl e \<Rightarrow> except_clauses rt response e, net')"
  using assms by (simp add: get_granite_response_def Let_def)


lemma try_block_error_status:
  "post request net = (Inr response, net') \<Longrightarrow>
   400 \<le> status_code response \<and> status_code response < 600 \<Longrightarrow>
   try_block rt post request net = (Some response, Inl (HTTPError response), net')"
  by (simp add: try_block_def raise_for_status_def)

lemma try_block_json_raises:
  "post request net = (Inr response, net') \<Longrightarrow>
   \<not> (400 \<le> status_code response \<and> status_code response < 600) \<Longrightarrow>
   json_result response = Inl e \<Longrightarrow>
   try_block rt post request net = (Some response, Inl e, net')"
  by (auto simp: try_block_def raise_for_status_def)

lemma try_block_decoded:
  "post request net = (Inr response, net') \<Longrightarrow>
   \<not> (400 \<le> status_code response \<and> status_code response < 600) \<Longrightarrow>
   json_result response = Inr response_data \<Longrightarrow>
   try_block rt post request net = (Some response, extract_text rt response_data, net')"
  by (auto simp: try_block_def raise_for_status_def)

lemma try_block_network: "snd (snd (try_block rt post request net)) = snd (post request net)"
  by (auto simp: try_block_def split: prod.splits sum.splits)

lemma try_block_returns:
  assumes "try_block rt post request net = (response, Inr v, net')"
  shows "\<exists>r response_data. post request net = (Inr r, net')
           \<and> json_result r = Inr response_data \<and> extract_text rt response_data = Inr v"
  using assms
  by (auto simp: try_block_def split: prod.splits sum.splits)

text \<open>Dictionary lookup and key membership agree.\<close>

lemma map_of_in_keys: "map_of kvs k = Some v \<Longrightarrow> k \<in> fst ` set kvs"
  by (metis domI dom_map_of_conv_image_fst)

lemma map_of_not_in_keys: "map_of kvs k = None \<Longrightarrow> k \<notin> fst ` set kvs"
  by (simp add: map_of_eq_None_iff)

text \<open>What lines 79 to 83 return when the first result is a dictionary: nothing is printed.\<close>

lemma extract_text_first_dict:
  assumes "map_of entries ''results'' = Some (PyList (PyDict item # others))"
  shows "extract_text rt (PyDict entries) =
           Inr (case map_of item ''generated_text'' of
                  None \<Rightarrow> PyStr ''No text generated.'' | Some v \<Rightarrow> v)"
proof -
  from assms have "''results'' \<in> fst ` set entries" by (rule map_of_in_keys)
  moreover from this have "entries \<noteq> []" by auto
  ultimately show ?thesis using assms
    by (simp add: extract_text_def has_results_def)
qed

text \<open>The values those lines can return.\<close>

lemma extract_text_returns:
  assumes "extract_text rt response_data = Inr v"
  shows "v = PyStr ''An unexpected response format was received from the AI.''
       \<or> v = PyStr ''No text generated.''
       \<or> (\<exists>entries item others. response_data = PyDict entries
            \<and> map_of entries ''results'' = Some (PyList (PyDict item # others))
            \<and> map_of item ''generated_text'' = Some v)"
proof (cases "has_results response_data")
  case (Inl e)
  with assms show ?thesis by (simp add: extract_text_def)
next
  case (Inr b)
  show ?thesis
  proof (cases b)
    case False
    with Inr assms have "print_then_return rt
            (''Unexpected API response structure: '' @ py_str rt response_data)
            (PyStr ''An unexpected response format was received from the AI.'') = Inr v"
      by (simp add: extract_text_def)
    then have "v = PyStr ''An unexpected response format was received from the AI.''"
      by (rule print_then_return_value)
    then show ?thesis by (rule disjI1)
  next
    case True
    with Inr assms obtain results first where
      r: "py_getitem_str response_data ''results'' = Inr results"
      and f: "py_getitem_0 results = Inr first"
      and g: "py_get first ''generated_text'' (PyStr ''No text generated.'') = Inr v"
      by (auto simp: extract_text_def split: sum.splits)
    from r obtain entries where d: "response_data = PyDict entries"
      and m: "map_of entries ''results'' = Some results"
      by (cases response_data) (auto split: option.splits)
    from g obtain item where i: "first = PyDict item"
      by (cases first) auto
    from f i obtain others where l: "results = PyList (PyDict item # others)"
      by (cases results rule: py_getitem_0.cases) auto
    from g i have "v = PyStr ''No text generated.'' \<or> map_of item ''generated_text'' = Some v"
      by (auto split: option.splits)
    with d m l show ?thesis by blast
  qed
qed

text \<open>The values the handlers can return.\<close>

lemma except_clauses_returns:
  assumes "except_clauses rt response e = Inr v"
  shows "v = PyStr ''The AI took too long to respond. Please try again.''
       \<or> v = PyStr ''Could not connect to the AI service. Please check your network connection.''
       \<or> v = PyStr ''Received an unreadable response from the AI service.''
       \<or> v = PyStr ''An internal error occurred while processing your request with the AI.''
       \<or> (\<exists>status. v = PyStr (''An API error occurred: '' @ str_int status
                                 @ ''. Please check your credentials or API usage.''))"
proof -
  consider (timeout) "isinstance e ''requests.exceptions.Timeout''"
    | (connection) "\<not> isinstance e ''requests.exceptions.Timeout''"
        "isinstance e ''requests.exceptions.ConnectionError''"
    | (http) "\<not> isinstance e ''requests.exceptions.Timeout''"
        "\<not> isinstance e ''requests.exceptions.ConnectionError''"
        "isinstance e ''requests.exceptions.HTTPError''"
    | (json) "\<not> isinstance e ''requests.exceptions.Timeout''"
        "\<not> isinstance e ''requests.exceptions.ConnectionError''"
        "\<not> isinstance e ''requests.exceptions.HTTPError''"
        "isinstance e ''json.JSONDecodeError''"
    | (other) "\<not> isinstance e ''requests.exceptions.Timeout''"
        "\<not> isinstance e ''requests.exceptions.ConnectionError''"
        "\<not> isinstance e ''requests.exceptions.HTTPError''"
        "\<not> isinstance e ''json.JSONDecodeError''"
    by blast
  then show ?thesis
  proof cases
    case timeout
    with assms have "print_then_return rt ''Error: Request to IBM Granite API timed out.''
          (PyStr ''The AI took too long to respond. Please try again.'') = Inr v"
      by (simp only: except_clauses_def if_True)
    then show ?thesis by (rule print_then_return_value [THEN disjI1])
  next
    case connection
    with assms have "print_then_return rt
          ''Error: Could not connect to IBM Granite API. Check network and API URL.''
          (PyStr ''Could not connect to the AI service. Please check your network connection.'')
          = Inr v"
      by (simp only: except_clauses_def if_True if_False)
    then show ?thesis by (rule print_then_return_value [THEN disjI1, THEN disjI2])
  next
    case http
    with assms have h: "(case exc_response e of
           None \<Rightarrow> Inl AttributeError
         | Some r \<Rightarrow>
             print_then_return rt
               (''HTTP Error calling IBM Granite API: '' @ str_int (status_code r) @ '' - ''
                  @ response_text r)
               (PyStr (''An API error occurred: '' @ str_int (status_code r)
                       @ ''. Please check your credentials or API usage.''))) = Inr v"
      by (simp only: except_clauses_def if_True if_False)
    then obtain r where "print_then_return rt
               (''HTTP Error calling IBM Granite API: '' @ str_int (status_code r) @ '' - ''
                  @ response_text r)
               (PyStr (''An API error occurred: '' @ str_int (status_code r)
                       @ ''. Please check your credentials or API usage.'')) = Inr v"
      by (cases "exc_response e") (simp_all only: option.case sum.distinct)
    then have "v = PyStr (''An API error occurred: '' @ str_int (status_code r)
                         @ ''. Please check your credentials or API usage.'')"
      by (rule print_then_return_value)
    then have "\<exists>status. v = PyStr (''An API error occurred: '' @ str_int status
                                 @ ''. Please check your credentials or API usage.'')"
      by (rule exI [where x = "status_code r"])
    then show ?thesis by (rule disjI2 [THEN disjI2, THEN disjI2, THEN disjI2])
  next
    case json
    with assms have h: "(case response of
           None \<Rightarrow> Inl UnboundLocalError
         | Some r \<Rightarrow>
             print_then_return rt
               (''Error: Could not decode JSON from API response: '' @ response_text r)
               (PyStr ''Received an unreadable response from the AI service.'')) = Inr v"
      by (simp only: except_clauses_def if_True if_False)
    then obtain r where "print_then_return rt
               (''Error: Could not decode JSON from API response: '' @ response_text r)
               (PyStr ''Received an unreadable response from the AI service.'') = Inr v"
      by (cases response) (simp_all only: option.case sum.distinct)
    then show ?thesis by (rule print_then_return_value [THEN disjI1, THEN disjI2, THEN disjI2])
  next
    case other
    with assms have h: "(if isinstance e ''Exception'' then
        print_then_return rt
          (''An unexpected error occurred while interacting with IBM Granite API: ''
             @ str_exception rt e)
          (PyStr ''An internal error occurred while processing your request with the AI.'')
      else Inl e) = Inr v"
      by (simp only: except_clauses_def if_True if_False)
    then have "print_then_return rt
          (''An unexpected error occurred while interacting with IBM Granite API: ''
             @ str_exception rt e)
          (PyStr ''An internal error occurred while processing your request with the AI.'')
          = Inr v"
      by (cases "isinstance e ''Exception''") (simp_all only: if_True if_False sum.distinct)
    then show ?thesis by (rule print_then_return_value [THEN disjI1, THEN disjI2, THEN disjI2, THEN disjI2])
  qed
qed


text \<open>
  The handlers of \<^verbatim>\<open>HTTPError\<close> and \<^verbatim>\<open>JSONDecodeError\<close> when their line is printed, and
  the branch of line 81 when its line is printed.
\<close>

lemma http_error_handled:
  assumes "ibm_api_key env = Some api_key" "api_key \<noteq> []"
    and "ibm_project_id env = Some project_id" "project_id \<noteq> []"
    and "post (granite_request api_key project_id prompt_text) net = (Inr response, net')"
    and "400 \<le> status_code response \<and> status_code response < 600"
    and "py_print rt (''HTTP Error calling IBM Granite API: '' @ str_int (status_code response)
                       @ '' - '' @ response_text response) = None"
  shows "fst (get_granite_response env rt post prompt_text net) =
           Inr (PyStr (''An API error occurred: '' @ str_int (status_code response)
                       @ ''. Please check your credentials or API usage.''))"
proof -
  have "try_block rt post (granite_request api_key project_id prompt_text) net
          = (Some response, Inl (HTTPError response), net')"
    using assms(5,6) by (rule try_block_error_status)
  from granite_configured [OF assms(1-4) this] assms(7) show ?thesis
    by (simp add: except_clauses_def HTTPError_def isinstance_def print_then_return_def)
qed

lemma unreadable_body_handled:
  assumes "ibm_api_key env = Some api_key" "api_key \<noteq> []"
    and "ibm_project_id env = Some project_id" "project_id \<noteq> []"
    and "post (granite_request api_key project_id prompt_text) net = (Inr response, net')"
    and "\<not> (400 \<le> status_code response \<and> status_code response < 600)"
    and "json_result response = Inl e"
    and "isinstance e ''json.JSONDecodeError''"
    and "\<not> isinstance e ''requests.exceptions.Timeout''"
    and "\<not> isinstance e ''requests.exceptions.ConnectionError''"
    and "\<not> isinstance e ''requests.exceptions.HTTPError''"
    and "py_print rt (''Error: Could not decode JSON from API response: ''
                       @ response_text response) = None"
  shows "fst (get_granite_response env rt post prompt_text net) =
           Inr (PyStr ''Received an unreadable response from the AI service.'')"
proof -
  have "try_block rt post (granite_request api_key project_id prompt_text) net
          = (Some response, Inl e, net')"
    using assms(5,6,7) by (rule try_block_json_raises)
  from granite_configured [OF assms(1-4) this] assms(8-12) show ?thesis
    by (simp add: except_clauses_def print_then_return_def)
qed

lemma unexpected_shape_handled:
  assumes "ibm_api_key env = Some api_key" "api_key \<noteq> []"
    and "ibm_project_id env = Some project_id" "project_id \<noteq> []"
    and "post (granite_request api_key project_id prompt_text) net = (Inr response, net')"
    and "\<not> (400 \<le> status_code response \<and> status_code response < 600)"
    and "json_result response = Inr (PyDict entries)"
    and "map_of entries ''results'' = None \<or> map_of entries ''results'' = Some (PyList [])"
    and "py_print rt (''Unexpected API response structure: '' @ repr_value rt (PyDict entries))
           = None"
  shows "fst (get_granite_response env rt post prompt_text net) =
           Inr (PyStr ''An unexpected response format was received from the AI.'')"
proof -
  have "has_results (PyDict entries) = Inr False"
    using assms(8)
  proof
    assume "map_of entries ''results'' = None"
    then have "''results'' \<notin> fst ` set entries" by (rule map_of_not_in_keys)
    then show ?thesis by (simp add: has_results_def)
  next
    assume m: "map_of entries ''results'' = Some (PyList [])"
    then have "''results'' \<in> fst ` set entries" by (rule map_of_in_keys)
    with m show ?thesis by (simp add: has_results_def)
  qed
  with assms(9) have "extract_text rt (PyDict entries) =
      Inr (PyStr ''An unexpected response format was received from the AI.'')"
    by (simp add: extract_text_def print_then_return_def)
  moreover have "try_block rt post (granite_request api_key project_id prompt_text) net
          = (Some response, extract_text rt (PyDict entries), net')"
    using assms(5,6,7) by (rule try_block_decoded)
  ultimately show ?thesis
    using granite_configured [OF assms(1-4), of rt post prompt_text net] by simp
qed

text \<open>The decimal digits of a status code of three digits.\<close>

lemma str_int_three_digits:
  assumes "100 \<le> i" "i < 1000"
  shows "str_int i =
           [''0123456789'' ! nat (i div 100), ''0123456789'' ! nat (i div 10 mod 10),
            ''0123456789'' ! nat (i mod 10)]"
proof -
  define n where "n = nat i"
  have n: "100 \<le> n" "n < 1000" and i: "i = int n" using assms by (simp_all add: n_def)
  have "str_nat n = str_nat (n div 10) @ [digit_char (n mod 10)]"
    using n by (subst str_nat.simps) simp
  also have "str_nat (n div 10) = str_nat (n div 10 div 10) @ [digit_char (n div 10 mod 10)]"
    using n by (subst str_nat.simps) simp
  also have "str_nat (n div 10 div 10) = [digit_char (n div 10 div 10)]"
    using n by (subst str_nat.simps) simp
  finally have "str_nat n =
      [digit_char (n div 10 div 10), digit_char (n div 10 mod 10), digit_char (n mod 10)]"
    by (simp del: str_nat.simps)
  moreover have "n div 10 div 10 = n div 100"
    using div_mult2_eq [of n 10 10] by simp
  moreover have "nat (int n div 100) = n div 100" "nat (int n div 10 mod 10) = n div 10 mod 10"
    "nat (int n mod 10) = n mod 10"
    by (simp_all add: nat_div_distrib nat_mod_distrib)
  ultimately show ?thesis
    by (simp add: str_int_def i digit_char_def del: str_nat.simps)
qed

section \<open>The configuration guard\<close>

text \<open>
  C1.  When the API key or the project id is \<^verbatim>\<open>None\<close> or the empty string, the function
  returns the message "Error: IBM API Key or Project ID is not configured." and leaves the
  network as it was, whatever the transport, the interpreter and the prompt are: the guard
  is the first statement, and the transport is not called.
\<close>

theorem configuration_guard:
  assumes "py_not (ibm_api_key env) \<or> py_not (ibm_project_id env)"
  shows "get_granite_response env rt post prompt_text net =
           (Inr (PyStr ''Error: IBM API Key or Project ID is not configured.''), net)"
  using assms by (simp add: get_granite_response_def)

theorem configuration_guard_witness:
  "get_granite_response \<lparr>ibm_api_key = Some '''', ibm_project_id = Some ''proj''\<rparr>
     ascii_runtime (answering (Inl ReadTimeout)) ''What helps a headache?'' []
   = (Inr (PyStr ''Error: IBM API Key or Project ID is not configured.''), [])"
  using configuration_guard
    [of "\<lparr>ibm_api_key = Some '''', ibm_project_id = Some ''proj''\<rparr>"
        ascii_runtime "answering (Inl ReadTimeout)" "''What helps a headache?''" "[]"]
  by simp

section \<open>The generated text\<close>

text \<open>
  C2.  With both credentials set, when the transport returns a response whose status is not
  an error status and whose decoded body is an object with a non-empty \<^verbatim>\<open>results\<close> array whose
  first element is an object with a string \<^verbatim>\<open>generated_text\<close>, the function returns exactly
  that string.  The body \<^verbatim>\<open>{"results":[{"generated_text":"Take two aspirin"}]}\<close> gives
  "Take two aspirin".
\<close>

theorem generated_text_returned:
  assumes "ibm_api_key env = Some api_key" "api_key \<noteq> []"
    and "ibm_project_id env = Some project_id" "project_id \<noteq> []"
    and "post (granite_request api_key project_id prompt_text) net = (Inr response, net')"
    and "\<not> (400 \<le> status_code response \<and> status_code response < 600)"
    and "json_result response = Inr (PyDict entries)"
    and "map_of entries ''results'' = Some (PyList (PyDict item # others))"
    and "map_of item ''generated_text'' = Some (PyStr generated_text)"
  shows "fst (get_granite_response env rt post prompt_text net) = Inr (PyStr generated_text)"
proof -
  have "try_block rt post (granite_request api_key project_id prompt_text) net
          = (Some response, extract_text rt (PyDict entries), net')"
    using assms(5,6,7) by (rule try_block_decoded)
  moreover have "extract_text rt (PyDict entries) = Inr (PyStr generated_text)"
    using assms(8,9) by (simp add: extract_text_first_dict)
  ultimately have "try_block rt post (granite_request api_key project_id prompt_text) net
          = (Some response, Inr (PyStr generated_text), net')"
    by simp
  from granite_configured [OF assms(1-4) this] show ?thesis by simp
qed

theorem generated_text_returned_witness:
  \<open>fst (get_granite_response
          \<lparr>ibm_api_key = Some ''key'', ibm_project_id = Some ''proj''\<rparr>
          ascii_runtime
          (answering (Inr (Response 200
              ''{"results":[{"generated_text":"Take two aspirin"}]}''
              (Inr (PyDict [(''results'',
                 PyList [PyDict [(''generated_text'', PyStr ''Take two aspirin'')]])])))))
          ''What helps a headache?'' [])
     = Inr (PyStr ''Take two aspirin'')\<close>
  using generated_text_returned
    [of "\<lparr>ibm_api_key = Some ''key'', ibm_project_id = Some ''proj''\<rparr>" "''key''" "''proj''"
        "answering (Inr (Response 200
              ''{\"results\":[{\"generated_text\":\"Take two aspirin\"}]}''
              (Inr (PyDict [(''results'',
                 PyList [PyDict [(''generated_text'', PyStr ''Take two aspirin'')]])]))))"
        "''What helps a headache?''" "[]" _ _
        "[(''results'', PyList [PyDict [(''generated_text'', PyStr ''Take two aspirin'')]])]"
        "[(''generated_text'', PyStr ''Take two aspirin'')]" "[]" "''Take two aspirin''"
        ascii_runtime]
  by (simp add: answering_def recording_def)

section \<open>The shape of what is returned\<close>

text \<open>
  C3, as stated, fails.  The function returns a bare value, not a tagged one: a call whose
  transport timed out and a call whose transport delivered a generated text reading
  "The AI took too long to respond. Please try again." return the same thing, so the value
  does not tell a caller which of the two happened.
\<close>

theorem outcome_untagged_counterexample:
  \<open>get_granite_response
      \<lparr>ibm_api_key = Some ''key'', ibm_project_id = Some ''proj''\<rparr>
      lenient_runtime (answering (Inl ReadTimeout)) ''What helps a headache?'' []
   = get_granite_response
      \<lparr>ibm_api_key = Some ''key'', ibm_project_id = Some ''proj''\<rparr>
      lenient_runtime
      (answering (Inr (Response 200
          ''{"results":[{"generated_text":"The AI took too long to respond. Please try again."}]}''
          (Inr (PyDict [(''results'', PyList [PyDict [(''generated_text'',
            PyStr ''The AI took too long to respond. Please try again.'')]])])))))
      ''What helps a headache?'' []\<close>
  by (simp add: get_granite_response_def try_block_def answering_def recording_def
        raise_for_status_def extract_text_def has_results_def except_clauses_def isinstance_def
        ReadTimeout_def print_then_return_def py_print_def is_ascii_def)

text \<open>
  C3, amended.  What a call returns is one bare value: one of seven fixed strings (the
  message of the guard, the five messages of the handlers and of line 83, and "No text
  generated."), the API-error message built around a status code, or the value of
  \<^verbatim>\<open>generated_text\<close> in the first result of the decoded body.  The value carries no tag
  that tells a failure from a generated text.
\<close>

theorem outcome_is_untagged_value:
  assumes "fst (get_granite_response env rt post prompt_text net) = Inr v"
  shows "v = PyStr ''Error: IBM API Key or Project ID is not configured.''
       \<or> v = PyStr ''The AI took too long to respond. Please try again.''
       \<or> v = PyStr ''Could not connect to the AI service. Please check your network connection.''
       \<or> v = PyStr ''Received an unreadable response from the AI service.''
       \<or> v = PyStr ''An internal error occurred while processing your request with the AI.''
       \<or> (\<exists>status. v = PyStr (''An API error occurred: '' @ str_int status
                                 @ ''. Please check your credentials or API usage.''))
       \<or> v = PyStr ''An unexpected response format was received from the AI.''
       \<or> v = PyStr ''No text generated.''
       \<or> (\<exists>response net' entries item others.
             post (granite_request (the (ibm_api_key env)) (the (ibm_project_id env)) prompt_text)
               net = (Inr response, net')
             \<and> json_result response = Inr (PyDict entries)
             \<and> map_of entries ''results'' = Some (PyList (PyDict item # others))
             \<and> map_of item ''generated_text'' = Some v)"
proof (cases "py_not (ibm_api_key env) \<or> py_not (ibm_project_id env)")
  case True
  with assms have "v = PyStr ''Error: IBM API Key or Project ID is not configured.''"
    by (simp add: get_granite_response_def)
  then show ?thesis by (rule disjI1)
next
  case False
  then obtain api_key project_id where
    c: "ibm_api_key env = Some api_key" "api_key \<noteq> []"
       "ibm_project_id env = Some project_id" "project_id \<noteq> []"
    by (auto simp: py_not_False)
  let ?request = "granite_request api_key project_id prompt_text"
  have r: "granite_request (the (ibm_api_key env)) (the (ibm_project_id env)) prompt_text
             = ?request"
    using c by simp
  obtain response outcome net' where
    t: "try_block rt post ?request net = (response, outcome, net')"
    by (cases "try_block rt post ?request net")
  note g = granite_configured [OF c t]
  show ?thesis
  proof (cases outcome)
    case (Inl e)
    with g assms have "except_clauses rt response e = Inr v" by simp
    from except_clauses_returns [OF this]
    have "(v = PyStr ''The AI took too long to respond. Please try again.''
       \<or> v = PyStr ''Could not connect to the AI service. Please check your network connection.''
       \<or> v = PyStr ''Received an unreadable response from the AI service.''
       \<or> v = PyStr ''An internal error occurred while processing your request with the AI.''
       \<or> (\<exists>status. v = PyStr (''An API error occurred: '' @ str_int status
                                 @ ''. Please check your credentials or API usage.'')))" .
    then have "(v = PyStr ''The AI took too long to respond. Please try again.''
       \<or> v = PyStr ''Could not connect to the AI service. Please check your network connection.''
       \<or> v = PyStr ''Received an unreadable response from the AI service.''
       \<or> v = PyStr ''An internal error occurred while processing your request with the AI.''
       \<or> (\<exists>status. v = PyStr (''An API error occurred: '' @ str_int status
                                 @ ''. Please check your credentials or API usage.'')))
       \<or> (v = PyStr ''An unexpected response format was received from the AI.''
       \<or> v = PyStr ''No text generated.''
       \<or> (\<exists>response net' entries item others.
             post (granite_request (the (ibm_api_key env)) (the (ibm_project_id env)) prompt_text)
               net = (Inr response, net')
             \<and> json_result response = Inr (PyDict entries)
             \<and> map_of entries ''results'' = Some (PyList (PyDict item # others))
             \<and> map_of item ''generated_text'' = Some v))"
      by (rule disjI1)
    then show ?thesis by (simp only: disj_assoc disjI2)
  next
    case (Inr w)
    with g assms have w: "w = v" by simp
    from try_block_returns [OF t [unfolded Inr w]] obtain resp response_data where
      p: "post ?request net = (Inr resp, net')"
      and j: "json_result resp = Inr response_data"
      and x: "extract_text rt response_data = Inr v"
      by blast
    from extract_text_returns [OF x]
    have "v = PyStr ''An unexpected response format was received from the AI.''
       \<or> v = PyStr ''No text generated.''
       \<or> (\<exists>response net' entries item others.
             post (granite_request (the (ibm_api_key env)) (the (ibm_project_id env)) prompt_text)
               net = (Inr response, net')
             \<and> json_result response = Inr (PyDict entries)
             \<and> map_of entries ''results'' = Some (PyList (PyDict item # others))
             \<and> map_of item ''generated_text'' = Some v)"
    proof (elim disjE exE conjE)
      assume "v = PyStr ''An unexpected response format was received from the AI.''"
      then show ?thesis by (rule disjI1)
    next
      assume "v = PyStr ''No text generated.''"
      then show ?thesis by (rule disjI1 [THEN disjI2])
    next
      fix entries item others
      assume "response_data = PyDict entries"
        and "map_of entries ''results'' = Some (PyList (PyDict item # others))"
        and "map_of item ''generated_text'' = Some v"
      with p j have "post (granite_request (the (ibm_api_key env)) (the (ibm_project_id env))
               prompt_text) net = (Inr resp, net')
             \<and> json_result resp = Inr (PyDict entries)
             \<and> map_of entries ''results'' = Some (PyList (PyDict item # others))
             \<and> map_of item ''generated_text'' = Some v"
        by (simp only: r simp_thms)
      then have "\<exists>response net' entries item others.
             post (granite_request (the (ibm_api_key env)) (the (ibm_project_id env)) prompt_text)
               net = (Inr response, net')
             \<and> json_result response = Inr (PyDict entries)
             \<and> map_of entries ''results'' = Some (PyList (PyDict item # others))
             \<and> map_of item ''generated_text'' = Some v"
        by (intro exI)
      then show ?thesis by (rule disjI2 [THEN disjI2])
    qed
    then have "(v = PyStr ''The AI took too long to respond. Please try again.''
       \<or> v = PyStr ''Could not connect to the AI service. Please check your network connection.''
       \<or> v = PyStr ''Received an unreadable response from the AI service.''
       \<or> v = PyStr ''An internal error occurred while processing your request with the AI.''
       \<or> (\<exists>status. v = PyStr (''An API error occurred: '' @ str_int status
                                 @ ''. Please check your credentials or API usage.'')))
       \<or> (v = PyStr ''An unexpected response format was received from the AI.''
       \<or> v = PyStr ''No text generated.''
       \<or> (\<exists>response net' entries item others.
             post (granite_request (the (ibm_api_key env)) (the (ibm_project_id env)) prompt_text)
               net = (Inr response, net')
             \<and> json_result response = Inr (PyDict entries)
             \<and> map_of entries ''results'' = Some (PyList (PyDict item # others))
             \<and> map_of item ''generated_text'' = Some v))"
      by (rule disjI2)
    then show ?thesis by (simp only: disj_assoc disjI2)
  qed
qed

theorem outcome_is_untagged_value_witness:
  "fst (get_granite_response
          \<lparr>ibm_api_key = Some ''key'', ibm_project_id = Some ''proj''\<rparr>
          lenient_runtime (answering (Inl TooManyRedirects)) ''What helps a headache?'' [])
     = Inr (PyStr ''An internal error occurred while processing your request with the AI.'')"
  using outcome_is_untagged_value
    [of "\<lparr>ibm_api_key = Some ''key'', ibm_project_id = Some ''proj''\<rparr>"
        lenient_runtime "answering (Inl TooManyRedirects)" "''What helps a headache?''" "[]"
        "PyStr ''An internal error occurred while processing your request with the AI.''"]
  by (simp add: get_granite_response_def try_block_def answering_def recording_def
        except_clauses_def isinstance_def TooManyRedirects_def print_then_return_def
        py_print_def lenient_runtime_def)

section \<open>Exceptions that leave the function\<close>

text \<open>
  C4 does not hold of the code.  A response with status 200 whose body is not JSON and holds
  a character that the standard output cannot encode: \<^verbatim>\<open>json()\<close> raises, the handler of
  \<^verbatim>\<open>JSONDecodeError\<close> prints the body (line 95), \<^verbatim>\<open>print\<close> raises
  \<^verbatim>\<open>UnicodeEncodeError\<close>, and since the handler is outside the \<^verbatim>\<open>try\<close> that exception
  leaves the function.
\<close>

theorem handler_print_escapes:
  "fst (get_granite_response
          \<lparr>ibm_api_key = Some ''key'', ibm_project_id = Some ''proj''\<rparr>
          ascii_runtime
          (answering (Inr (Response 200
              (''Service indisponible, r'' @ [CHR 0xE9] @ ''essayez plus tard'')
              (Inl RequestsJSONDecodeError))))
          ''What helps a headache?'' [])
     = Inl UnicodeEncodeError"
  by (simp add: get_granite_response_def try_block_def answering_def recording_def
        raise_for_status_def except_clauses_def isinstance_def RequestsJSONDecodeError_def
        print_then_return_def py_print_def is_ascii_def ascii_runtime_def)

section \<open>Timeouts\<close>



section \<open>Error statuses and unreadable bodies\<close>

text \<open>
  C6 does not hold of the code for every response.  A response with status 500 whose body
  holds a character that the standard output cannot encode: \<^verbatim>\<open>raise_for_status()\<close> raises
  \<^verbatim>\<open>HTTPError\<close>, its handler prints the status and the body (line 92), \<^verbatim>\<open>print\<close> raises
  \<^verbatim>\<open>UnicodeEncodeError\<close>, and the function raises instead of returning the API-error
  message.  When the line is printed the message is returned, with the status in decimal.
\<close>

theorem http_error_print_escapes:
  "fst (get_granite_response
          \<lparr>ibm_api_key = Some ''key'', ibm_project_id = Some ''proj''\<rparr>
          ascii_runtime
          (answering (Inr (Response 500
              (''Erreur interne: mod'' @ [CHR 0xE8] @ ''le indisponible'')
              (Inl RequestsJSONDecodeError))))
          ''What helps a headache?'' [])
     = Inl UnicodeEncodeError"
  by (simp add: get_granite_response_def try_block_def answering_def recording_def
        raise_for_status_def except_clauses_def isinstance_def HTTPError_def
        print_then_return_def py_print_def is_ascii_def ascii_runtime_def)

text \<open>
  C7 does not hold of the code for every response.  A response with status 200 whose body is
  an HTML page with a character that the standard output cannot encode: \<^verbatim>\<open>json()\<close> raises
  \<^verbatim>\<open>JSONDecodeError\<close>, its handler prints the body (line 95), \<^verbatim>\<open>print\<close> raises
  \<^verbatim>\<open>UnicodeEncodeError\<close>, and the function raises instead of returning the
  unreadable-response message.
\<close>

theorem unreadable_body_print_escapes:
  "fst (get_granite_response
          \<lparr>ibm_api_key = Some ''key'', ibm_project_id = Some ''proj''\<rparr>
          ascii_runtime
          (answering (Inr (Response 200
              (''<html>erreur d'' @ [CHR 0xE9] @ ''tect'' @ [CHR 0xE9] @ ''e</html>'')
              (Inl RequestsJSONDecodeError))))
          ''What helps a headache?'' [])
     = Inl UnicodeEncodeError"
  by (simp add: get_granite_response_def try_block_def answering_def recording_def
        raise_for_status_def except_clauses_def isinstance_def RequestsJSONDecodeError_def
        print_then_return_def py_print_def is_ascii_def ascii_runtime_def)

section \<open>Decoded bodies of an unexpected shape\<close>

text \<open>
  C8 does not hold of the code for every decoded body.  The body \<^verbatim>\<open>5\<close> decodes and has no
  \<^verbatim>\<open>results\<close> field; the test \<^verbatim>\<open>"results" in response_data\<close> of line 79 raises
  \<^verbatim>\<open>TypeError\<close> on an integer, and the function returns the internal-error message, not the
  unexpected-format one.
\<close>

theorem scalar_body_internal_error:
  "fst (get_granite_response
          \<lparr>ibm_api_key = Some ''key'', ibm_project_id = Some ''proj''\<rparr>
          lenient_runtime
          (answering (Inr (Response 200 ''5'' (Inr (PyInt 5)))))
          ''What helps a headache?'' [])
     = Inr (PyStr ''An internal error occurred while processing your request with the AI.'')
   \<and> fst (get_granite_response
          \<lparr>ibm_api_key = Some ''key'', ibm_project_id = Some ''proj''\<rparr>
          lenient_runtime
          (answering (Inr (Response 200 ''5'' (Inr (PyInt 5)))))
          ''What helps a headache?'' [])
     \<noteq> Inr (PyStr ''An unexpected response format was received from the AI.'')"
  by (simp add: get_granite_response_def try_block_def answering_def recording_def
        raise_for_status_def extract_text_def has_results_def except_clauses_def isinstance_def
        TypeError_def print_then_return_def py_print_def lenient_runtime_def)

section \<open>The request\<close>

text \<open>
  C9.  With both credentials set, the transport receives exactly one request, whatever it
  answers.  The request goes to the fixed URL with a timeout of 60, and its JSON payload
  has exactly the fields \<^verbatim>\<open>model_id\<close>, \<^verbatim>\<open>input\<close> (the prompt), \<^verbatim>\<open>parameters\<close> and
  \<^verbatim>\<open>project_id\<close>, where \<^verbatim>\<open>parameters\<close> has exactly \<^verbatim>\<open>decoding_method\<close>,
  \<^verbatim>\<open>max_new_tokens\<close>, \<^verbatim>\<open>min_new_tokens\<close> and \<^verbatim>\<open>repetition_penalty\<close>, the minimum read
  from the payload being at most the maximum read from it.
\<close>

theorem outbound_request_shape:
  assumes "ibm_api_key env = Some api_key" "api_key \<noteq> []"
    and "ibm_project_id env = Some project_id" "project_id \<noteq> []"
  shows "snd (get_granite_response env rt (recording f) prompt_text received) =
           received @
           [\<lparr> url =
                ''https://us-south.ml.cloud.ibm.com/ml/v1-beta/generation/text?version=2023-05-29'',
              headers =
                [(''Authorization'', ''Bearer '' @ api_key),
                 (''Content-Type'', ''application/json''),
                 (''Accept'', ''application/json''),
                 (''ibm-metrics-api-token'', api_key),
                 (''ML-Instance-ID'', project_id)],
              json_payload =
                PyDict
                  [(''model_id'', PyStr ''ibm/granite-13b-instruct-v2''),
                   (''input'', PyStr prompt_text),
                   (''parameters'',
                      PyDict
                        [(''decoding_method'', PyStr ''greedy''),
                         (''max_new_tokens'', PyInt 500),
                         (''min_new_tokens'', PyInt 50),
                         (''repetition_penalty'', PyFloat (11 / 10))]),
                   (''project_id'', PyStr project_id)],
              timeout = 60 \<rparr>]
         \<and> (\<exists>lo hi.
               payload_parameter
                 (last (snd (get_granite_response env rt (recording f) prompt_text received)))
                 ''min_new_tokens'' = Some (PyInt lo)
             \<and> payload_parameter
                 (last (snd (get_granite_response env rt (recording f) prompt_text received)))
                 ''max_new_tokens'' = Some (PyInt hi)
             \<and> lo \<le> hi)"
proof -
  obtain response outcome net' where
    t: "try_block rt (recording f) (granite_request api_key project_id prompt_text) received
          = (response, outcome, net')"
    by (cases "try_block rt (recording f) (granite_request api_key project_id prompt_text) received")
  have "net' = snd (recording f (granite_request api_key project_id prompt_text) received)"
    using try_block_network [of rt "recording f" "granite_request api_key project_id prompt_text"
        received] t by simp
  then have n: "net' = received @ [granite_request api_key project_id prompt_text]"
    by (simp add: recording_def)
  have s: "snd (get_granite_response env rt (recording f) prompt_text received) =
           received @ [granite_request api_key project_id prompt_text]"
    using granite_configured [OF assms t] n by simp
  show ?thesis
    unfolding s
    by (simp add: granite_request_def API_URL_def MODEL_ID_def payload_parameter_def)
qed

theorem outbound_request_shape_witness:
  "snd (get_granite_response
          \<lparr>ibm_api_key = Some ''key'', ibm_project_id = Some ''proj''\<rparr>
          ascii_runtime (answering (Inl ConnectTimeout))
          ''What helps a headache?'' [])
     = [\<lparr> url =
            ''https://us-south.ml.cloud.ibm.com/ml/v1-beta/generation/text?version=2023-05-29'',
          headers =
            [(''Authorization'', ''Bearer key''),
             (''Content-Type'', ''application/json''),
             (''Accept'', ''application/json''),
             (''ibm-metrics-api-token'', ''key''),
             (''ML-Instance-ID'', ''proj'')],
          json_payload =
            PyDict
              [(''model_id'', PyStr ''ibm/granite-13b-instruct-v2''),
               (''input'', PyStr ''What helps a headache?''),
               (''parameters'',
                  PyDict
                    [(''decoding_method'', PyStr ''greedy''),
                     (''max_new_tokens'', PyInt 500),
                     (''min_new_tokens'', PyInt 50),
                     (''repetition_penalty'', PyFloat (11 / 10))]),
               (''project_id'', PyStr ''proj'')],
          timeout = 60 \<rparr>]"
  using outbound_request_shape
    [of "\<lparr>ibm_api_key = Some ''key'', ibm_project_id = Some ''proj''\<rparr>" "''key''" "''proj''"
        ascii_runtime "\<lambda>request. Inl ConnectTimeout" "''What helps a headache?''" "[]"]
  by (simp add: answering_def)

section \<open>A first result without generated text\<close>

text \<open>
  C10, as stated, fails.  In the body \<^verbatim>\<open>{"results":[5]}\<close> the array is non-empty and its
  first element has no \<^verbatim>\<open>generated_text\<close> field; an integer has no method \<^verbatim>\<open>get\<close>, the call
  raises \<^verbatim>\<open>AttributeError\<close>, and the function returns the internal-error message, not
  "No text generated.".
\<close>

theorem missing_generated_text_counterexample:
  \<open>fst (get_granite_response
          \<lparr>ibm_api_key = Some ''key'', ibm_project_id = Some ''proj''\<rparr>
          lenient_runtime
          (answering (Inr (Response 200 ''{"results":[5]}''
              (Inr (PyDict [(''results'', PyList [PyInt 5])])))))
          ''What helps a headache?'' [])
     = Inr (PyStr ''An internal error occurred while processing your request with the AI.'')
   \<and> fst (get_granite_response
          \<lparr>ibm_api_key = Some ''key'', ibm_project_id = Some ''proj''\<rparr>
          lenient_runtime
          (answering (Inr (Response 200 ''{"results":[5]}''
              (Inr (PyDict [(''results'', PyList [PyInt 5])])))))
          ''What helps a headache?'' [])
     \<noteq> Inr (PyStr ''No text generated.'')\<close>
  by (simp add: get_granite_response_def try_block_def answering_def recording_def
        raise_for_status_def extract_text_def has_results_def except_clauses_def isinstance_def
        AttributeError_def print_then_return_def py_print_def lenient_runtime_def)

text \<open>
  C10, amended.  With both credentials set and a status that is not an error status, when
  the decoded body is an object whose \<^verbatim>\<open>results\<close> array is non-empty and whose first
  element is an object without a \<^verbatim>\<open>generated_text\<close> field, the function returns the fixed
  string "No text generated." and none of the failure messages.
\<close>

theorem missing_generated_text_default:
  assumes "ibm_api_key env = Some api_key" "api_key \<noteq> []"
    and "ibm_project_id env = Some project_id" "project_id \<noteq> []"
    and "post (granite_request api_key project_id prompt_text) net = (Inr response, net')"
    and "\<not> (400 \<le> status_code response \<and> status_code response < 600)"
    and "json_result response = Inr (PyDict entries)"
    and "map_of entries ''results'' = Some (PyList (PyDict item # others))"
    and "map_of item ''generated_text'' = None"
  shows "fst (get_granite_response env rt post prompt_text net) =
           Inr (PyStr ''No text generated.'')"
proof -
  have "try_block rt post (granite_request api_key project_id prompt_text) net
          = (Some response, extract_text rt (PyDict entries), net')"
    using assms(5,6,7) by (rule try_block_decoded)
  moreover have "extract_text rt (PyDict entries) = Inr (PyStr ''No text generated.'')"
    using assms(8,9) by (simp add: extract_text_first_dict)
  ultimately have "try_block rt post (granite_request api_key project_id prompt_text) net
          = (Some response, Inr (PyStr ''No text generated.''), net')"
    by simp
  from granite_configured [OF assms(1-4) this] show ?thesis by simp
qed

theorem missing_generated_text_default_witness:
  \<open>fst (get_granite_response
          \<lparr>ibm_api_key = Some ''key'', ibm_project_id = Some ''proj''\<rparr>
          ascii_runtime
          (answering (Inr (Response 200 ''{"results":[{"stop_reason":"eos_token"}]}''
              (Inr (PyDict [(''results'',
                 PyList [PyDict [(''stop_reason'', PyStr ''eos_token'')]])])))))
          ''What helps a headache?'' [])
     = Inr (PyStr ''No text generated.'')\<close>
  using missing_generated_text_default
    [of "\<lparr>ibm_api_key = Some ''key'', ibm_project_id = Some ''proj''\<rparr>" "''key''" "''proj''"
        "answering (Inr (Response 200 ''{\"results\":[{\"stop_reason\":\"eos_token\"}]}''
              (Inr (PyDict [(''results'',
                 PyList [PyDict [(''stop_reason'', PyStr ''eos_token'')]])]))))"
        "''What helps a headache?''" "[]" _ _
        "[(''results'', PyList [PyDict [(''stop_reason'', PyStr ''eos_token'')]])]"
        "[(''stop_reason'', PyStr ''eos_token'')]" "[]" ascii_runtime]
  by (simp add: answering_def recording_def)

end
